theory Spec2Isabelle
  imports Complex_Main "HOL-Library.Word"
begin

section \<open>The overlay page component of static-fm-app\<close>

text \<open>
  The repository holds three revisions of the page component:
  \<^item> \<^verbatim>\<open>src/routes/+page.svelte\<close>: Web Audio analyser read in byte mode, track metadata
    polled from the status endpoint, no reconnect path;
  \<^item> \<^verbatim>\<open>part_000\<close>: byte mode, metadata pushed by the host (\<^verbatim>\<open>song-info-update\<close>),
    liveness probe and reconnect path;
  \<^item> \<^verbatim>\<open>part_001\<close>: decibel mode through the \<^verbatim>\<open>AudioAnalysis\<close> class, otherwise as
    \<^verbatim>\<open>part_000\<close>.
  The three window setters and the metadata defaulting are the same text in all revisions.
  A function that differs between revisions is embedded once per revision, with the suffix
  \<open>_ctx\<close> for \<^verbatim>\<open>part_000\<close> and \<open>_page\<close> for \<^verbatim>\<open>+page.svelte\<close>; the plain name is
  \<^verbatim>\<open>part_001\<close>.
\<close>

subsection \<open>JavaScript values and errors\<close>

text \<open>
  The values a field of a JSON payload can hold at run time. Numbers are integers here
  (no fraction, no NaN); \<open>JObject\<close> stands for any object or array, which is truthy.
\<close>

datatype jsval = Undefined | Null | JBool bool | JNum int | JStr string | JObject

fun truthy :: "jsval \<Rightarrow> bool" where
  "truthy Undefined = False"
| "truthy Null = False"
| "truthy (JBool b) = b"
| "truthy (JNum n) = (n \<noteq> 0)"
| "truthy (JStr s) = (s \<noteq> [])"
| "truthy JObject = True"

text \<open>The operator \<^verbatim>\<open>a || b\<close>: the left operand when it is truthy, else the right one.\<close>

definition js_or :: "jsval \<Rightarrow> jsval \<Rightarrow> jsval" where
  "js_or a b = (if truthy a then a else b)"

text \<open>What an external call can fail with: a thrown exception or a rejected promise.\<close>

datatype error = TypeError | WindowError | HostError | AudioError | NetworkError

subsection \<open>The component's variables\<close>

text \<open>The interface \<^verbatim>\<open>SongInfo\<close>; at run time a field holds whatever the payload carries.\<close>

record SongInfo =
  title :: jsval
  artist :: jsval

text \<open>The audio element: the attributes the component sets, and the readiness indicator.\<close>

record audio =
  src :: string
  crossOrigin :: string
  volume :: real
  readyState :: nat

datatype context_state = Suspended | Running | Closed

record audio_context =
  ctxState :: context_state

text \<open>
  The Web Audio analyser node (byte mode): \<open>byteFrequencyData\<close> is the spectrum the platform
  holds for it at the moment, which \<^verbatim>\<open>getByteFrequencyData\<close> copies out.
\<close>

record analyser_node =
  fftSize :: nat
  smoothingTimeConstant :: real
  byteFrequencyData :: "8 word list"

text \<open>
  Modelled from the spec: the class \<^verbatim>\<open>AudioAnalysis\<close> of
  \<^verbatim>\<open>$lib/visualizations/wavtools\<close>, which is not among the sources. The spec's transform
  facility "exposes a pull operation returning the current magnitude vector, plus a
  resume-if-suspended operation". The object holds what the pull yields at the moment: a
  thrown error or the vector of magnitudes, of any length; the arrival of audio data
  (\<open>audio_data_arrives\<close> below) replaces it.
\<close>

record analysis =
  suspended :: bool
  frequencies :: "error + real list"

text \<open>
  The script's \<^verbatim>\<open>let\<close> variables, over the three revisions: \<open>audioContext\<close>,
  \<open>analyser\<close> and \<open>bars\<close> belong to the byte-mode revisions, \<open>audioAnalysis\<close> and
  \<open>frequencyValues\<close> to \<^verbatim>\<open>part_001\<close>. \<open>None\<close> is \<^verbatim>\<open>null\<close>.
\<close>

record component =
  audioContext :: "audio_context option"
  analyser :: "analyser_node option"
  audioElement :: "audio option"
  audioAnalysis :: "analysis option"
  animationFrameId :: "nat option"
  bars :: "nat list"
  frequencyValues :: "real list"
  currentSong :: SongInfo
  themeColor :: string
  isPinned :: bool
  isMousePassthrough :: bool
  isPlaying :: bool

subsection \<open>The world outside the component\<close>

text \<open>Arguments of \<^verbatim>\<open>invoke\<close>, and the external calls the component makes.\<close>

datatype arg = Flag bool | Color string

datatype call =
    WindowSetAlwaysOnTop bool
  | WindowSetIgnoreCursorEvents bool
  | Invoke string arg
  | ElementPause
  | ElementPlay
  | ContextClose
  | ContextResume
  | AnalysisResume

text \<open>
  What the component does that is visible outside a function, in program order: a write of
  one of the three window variables (read by the template as soon as it is written), with
  the value written, or an external call.
\<close>

datatype variable = IsPinned | IsMousePassthrough | ThemeColor

datatype effect = Wrote variable arg | Called call

text \<open>
  Console output. The messages of the source are Chinese text; each is named here by what
  it says.
\<close>

datatype level = Log | Err

datatype message =
    PlaybackError
  | PlayFailed
  | AudioInitFailed
  | VisualizationFailed
  | ReconnectFailed
  | ConnectionLost
  | FetchSongFailed

datatype callback = ReconnectAudio

text \<open>
  \<open>frames\<close> are the animation-frame requests not yet run or cancelled (every one of them
  runs \<^verbatim>\<open>updateVisualization\<close>), \<open>timeouts\<close> the pending \<^verbatim>\<open>setTimeout\<close> requests with
  their delay in milliseconds. \<open>attempts\<close> is a ghost counter, not a variable of the
  program: the number of times \<^verbatim>\<open>reconnectAudio\<close> has been entered.
\<close>

record world =
  effects :: "effect list"
  console :: "(level \<times> message) list"
  frames :: "nat list"
  frameCounter :: nat
  timeouts :: "(callback \<times> nat) list"
  attempts :: nat

type_synonym state = "component \<times> world"

definition external :: "call \<Rightarrow> world \<Rightarrow> world" where
  "external k w = w\<lparr>effects := effects w @ [Called k]\<rparr>"

definition wrote :: "variable \<Rightarrow> arg \<Rightarrow> world \<Rightarrow> world" where
  "wrote v a w = w\<lparr>effects := effects w @ [Wrote v a]\<rparr>"

definition console_log :: "message \<Rightarrow> world \<Rightarrow> world" where
  "console_log m w = w\<lparr>console := console w @ [(Log, m)]\<rparr>"

definition console_error :: "message \<Rightarrow> world \<Rightarrow> world" where
  "console_error m w = w\<lparr>console := console w @ [(Err, m)]\<rparr>"

text \<open>Request identifiers are positive, as the platform's are.\<close>

definition requestAnimationFrame :: "world \<Rightarrow> nat \<times> world" where
  "requestAnimationFrame w =
     (Suc (frameCounter w),
      w\<lparr>frames := frames w @ [Suc (frameCounter w)], frameCounter := Suc (frameCounter w)\<rparr>)"

definition cancelAnimationFrame :: "nat \<Rightarrow> world \<Rightarrow> world" where
  "cancelAnimationFrame i w = w\<lparr>frames := removeAll i (frames w)\<rparr>"

definition setTimeout :: "callback \<Rightarrow> nat \<Rightarrow> world \<Rightarrow> world" where
  "setTimeout f ms w = w\<lparr>timeouts := timeouts w @ [(f, ms)]\<rparr>"

subsection \<open>Window setters (the same in the three revisions)\<close>

text \<open>
  An awaited external call: the call is made, and its promise resolves (\<open>None\<close>) or rejects
  (\<open>Some e\<close>). A rejection leaves the rest of the function unexecuted; no setter has a
  \<^verbatim>\<open>try\<close>, so the rejection is the setter's own result. Each setter is its source line
  by line: the assignment, the awaited call of the window, the awaited \<^verbatim>\<open>invoke\<close>.
\<close>

definition await_call :: "call \<Rightarrow> error option \<Rightarrow> world \<Rightarrow> (error + unit) \<times> world" where
  "await_call k outcome w =
     ((case outcome of None \<Rightarrow> Inr () | Some e \<Rightarrow> Inl e), external k w)"

definition setAlwaysOnTop ::
  "bool \<Rightarrow> error option \<Rightarrow> error option \<Rightarrow> state \<Rightarrow> (error + unit) \<times> state" where
  "setAlwaysOnTop flag win host s =
     (case s of (c, w) \<Rightarrow>
        let c1 = c\<lparr>isPinned := flag\<rparr>;
            w0 = wrote IsPinned (Flag flag) w
        in
        (case await_call (WindowSetAlwaysOnTop flag) win w0 of
           (Inl e, w1) \<Rightarrow> (Inl e, c1, w1)
         | (Inr _, w1) \<Rightarrow>
             (case await_call (Invoke ''set_always_on_top'' (Flag flag)) host w1 of
                (r, w2) \<Rightarrow> (r, c1, w2))))"

definition setMousePassthrough ::
  "bool \<Rightarrow> error option \<Rightarrow> error option \<Rightarrow> state \<Rightarrow> (error + unit) \<times> state" where
  "setMousePassthrough flag win host s =
     (case s of (c, w) \<Rightarrow>
        let c1 = c\<lparr>isMousePassthrough := flag\<rparr>;
            w0 = wrote IsMousePassthrough (Flag flag) w
        in
        (case await_call (WindowSetIgnoreCursorEvents flag) win w0 of
           (Inl e, w1) \<Rightarrow> (Inl e, c1, w1)
         | (Inr _, w1) \<Rightarrow>
             (case await_call (Invoke ''set_mouse_passthrough'' (Flag flag)) host w1 of
                (r, w2) \<Rightarrow> (r, c1, w2))))"

definition changeThemeColor :: "string \<Rightarrow> error option \<Rightarrow> state \<Rightarrow> (error + unit) \<times> state" where
  "changeThemeColor color host s =
     (case s of (c, w) \<Rightarrow>
        let c1 = c\<lparr>themeColor := color\<rparr>;
            w0 = wrote ThemeColor (Color color) w
        in
        (case await_call (Invoke ''change_theme_color'' (Color color)) host w0 of
           (r, w1) \<Rightarrow> (r, c1, w1)))"

text \<open>The pin button: \<^verbatim>\<open>onclick={() => setAlwaysOnTop(!isPinned)}\<close>.\<close>

definition pin_toggle :: "error option \<Rightarrow> error option \<Rightarrow> state \<Rightarrow> (error + unit) \<times> state" where
  "pin_toggle win host s = setAlwaysOnTop (\<not> isPinned (fst s)) win host s"

subsection \<open>Track metadata\<close>

text \<open>The object literal both inbound paths build from a payload.\<close>

definition song_of :: "SongInfo \<Rightarrow> SongInfo" where
  "song_of p =
     \<lparr>title = js_or (title p) (JStr ''Unknown Title''),
      artist = js_or (artist p) (JStr ''Unknown Artist'')\<rparr>"

text \<open>The listener of \<^verbatim>\<open>song-info-update\<close> (\<^verbatim>\<open>part_000\<close>, \<^verbatim>\<open>part_001\<close>).\<close>

definition song_info_update :: "SongInfo \<Rightarrow> state \<Rightarrow> state" where
  "song_info_update payload s = (case s of (c, w) \<Rightarrow> (c\<lparr>currentSong := song_of payload\<rparr>, w))"

text \<open>
  The status document of the polling revision, in the shape the code reads:
  \<^verbatim>\<open>{ icestats: { source: [ ... ] } }\<close>. \<open>None\<close> is an absent, null or otherwise falsy
  member; an element of the array is an object or \<^verbatim>\<open>null\<close> (\<open>None\<close>), whose member access
  throws.
\<close>

record icestats_doc =
  source :: "SongInfo option list option"

record status_doc =
  icestats :: "icestats_doc option"

text \<open>
  \<^verbatim>\<open>fetchCurrentSong\<close> of \<^verbatim>\<open>+page.svelte\<close>. \<open>response\<close> is the document, or the error of
  \<^verbatim>\<open>fetch\<close> or of \<^verbatim>\<open>response.json()\<close>; every error ends in the \<^verbatim>\<open>catch\<close>, which logs.
\<close>

definition fetchCurrentSong :: "error + status_doc \<Rightarrow> state \<Rightarrow> state" where
  "fetchCurrentSong response s =
     (case s of (c, w) \<Rightarrow>
        (case response of
           Inl e \<Rightarrow> (c, console_error FetchSongFailed w)
         | Inr data \<Rightarrow>
             (case icestats data of
                None \<Rightarrow> (c, w)
              | Some st \<Rightarrow>
                  (case source st of
                     None \<Rightarrow> (c, w)
                   | Some [] \<Rightarrow> (c, w)
                   | Some (None # _) \<Rightarrow> (c, console_error FetchSongFailed w)
                   | Some (Some p # _) \<Rightarrow> (c\<lparr>currentSong := song_of p\<rparr>, w)))))"

subsection \<open>The audio element and its listeners\<close>

definition streamUrl :: string where
  "streamUrl = ''https://radio.startend.xyz/radio''"

text \<open>
  \<^verbatim>\<open>new Audio()\<close> with the attributes the reconnecting revisions set; a fresh element has
  received nothing (\<open>readyState = 0\<close>).
\<close>

definition new_audio :: audio where
  "new_audio = \<lparr>src = streamUrl, crossOrigin = ''anonymous'', volume = 8 / 10, readyState = 0\<rparr>"

text \<open>The three listeners \<^verbatim>\<open>initAudio\<close> adds to the element.\<close>

definition on_error :: "state \<Rightarrow> state" where
  "on_error s = (case s of (c, w) \<Rightarrow> (c\<lparr>isPlaying := False\<rparr>, console_error PlaybackError w))"

definition on_playing :: "state \<Rightarrow> state" where
  "on_playing s = (case s of (c, w) \<Rightarrow> (c\<lparr>isPlaying := True\<rparr>, w))"

definition on_pause :: "state \<Rightarrow> state" where
  "on_pause s = (case s of (c, w) \<Rightarrow> (c\<lparr>isPlaying := False\<rparr>, w))"

text \<open>
  The platform changes the readiness of the element (0 is "nothing received", 4 "enough
  data"); the component has no listener for it and only reads it in the probe.
\<close>

definition ready_state_changes :: "nat \<Rightarrow> state \<Rightarrow> state" where
  "ready_state_changes n s =
     (case s of (c, w) \<Rightarrow>
        (c\<lparr>audioElement := map_option (\<lambda>el. el\<lparr>readyState := n\<rparr>) (audioElement c)\<rparr>, w))"

text \<open>The handler of \<^verbatim>\<open>playPromise.catch\<close>.\<close>

definition play_rejected :: "state \<Rightarrow> state" where
  "play_rejected s = (case s of (c, w) \<Rightarrow> (c\<lparr>isPlaying := False\<rparr>, console_error PlayFailed w))"

subsection \<open>The tick, decibel mode (\<^verbatim>\<open>part_001\<close>)\<close>

text \<open>
  Modelled from the spec: \<^verbatim>\<open>AudioAnalysis.getFrequencies\<close>, not among the sources. The
  pull reads what the object holds and leaves the object as it is.
\<close>

definition getFrequencies :: "analysis \<Rightarrow> error + real list" where
  "getFrequencies a = frequencies a"

text \<open>New audio data reaches the transform: the platform's event, not the component's.\<close>

definition audio_data_arrives :: "error + real list \<Rightarrow> state \<Rightarrow> state" where
  "audio_data_arrives v s =
     (case s of (c, w) \<Rightarrow>
        (c\<lparr>audioAnalysis := map_option (\<lambda>a. a\<lparr>frequencies := v\<rparr>) (audioAnalysis c)\<rparr>, w))"

text \<open>
  \<^verbatim>\<open>updateVisualization\<close>: the resume is called and not awaited; the pull either yields the
  values or throws into the \<^verbatim>\<open>catch\<close>, which logs; both paths request the next frame.
\<close>

definition updateVisualization :: "state \<Rightarrow> state" where
  "updateVisualization s =
     (case s of (c, w) \<Rightarrow>
        (case audioAnalysis c of
           None \<Rightarrow> (c, w)
         | Some a \<Rightarrow>
             let w1 = external AnalysisResume w in
             (case getFrequencies a of
                Inr values \<Rightarrow>
                  let c1 = c\<lparr>frequencyValues :=
                             (if 64 \<le> length values then take 64 values
                              else values @ replicate (64 - length values) 0)\<rparr>;
                      (i, w2) = requestAnimationFrame w1
                  in (c1\<lparr>animationFrameId := Some i\<rparr>, w2)
              | Inl e \<Rightarrow>
                  let (i, w2) = requestAnimationFrame (console_error VisualizationFailed w1)
                  in (c\<lparr>animationFrameId := Some i\<rparr>, w2))))"

subsection \<open>The tick, byte mode (\<^verbatim>\<open>part_000\<close> and \<^verbatim>\<open>+page.svelte\<close>)\<close>

definition frequencyBinCount :: "analyser_node \<Rightarrow> nat" where
  "frequencyBinCount an = fftSize an div 2"

text \<open>
  \<^verbatim>\<open>getByteFrequencyData\<close> writes the node's spectrum into the array it is given: the
  elements the array has room for, the others of the array left as they were.
\<close>

definition getByteFrequencyData :: "analyser_node \<Rightarrow> 8 word list \<Rightarrow> 8 word list" where
  "getByteFrequencyData an arr =
     take (length arr) (byteFrequencyData an) @ drop (length (byteFrequencyData an)) arr"

text \<open>The platform computes a new spectrum for the node.\<close>

definition byte_data_arrives :: "8 word list \<Rightarrow> state \<Rightarrow> state" where
  "byte_data_arrives v s =
     (case s of (c, w) \<Rightarrow>
        (c\<lparr>analyser := map_option (\<lambda>an. an\<lparr>byteFrequencyData := v\<rparr>) (analyser c)\<rparr>, w))"

definition updateVisualization_ctx :: "state \<Rightarrow> state" where
  "updateVisualization_ctx s =
     (case s of (c, w) \<Rightarrow>
        (case analyser c of
           None \<Rightarrow> (c, w)
         | Some an \<Rightarrow>
             (case audioContext c of
                None \<Rightarrow> (c, w)
              | Some ctx \<Rightarrow>
                  let w1 = (if ctxState ctx = Suspended then external ContextResume w else w);
                      dataArray = getByteFrequencyData an (replicate (frequencyBinCount an) 0);
                      c1 = c\<lparr>bars := take 64 (map unat dataArray)\<rparr>;
                      (i, w2) = requestAnimationFrame w1
                  in (c1\<lparr>animationFrameId := Some i\<rparr>, w2))))"

definition updateVisualization_page :: "state \<Rightarrow> state" where
  "updateVisualization_page s =
     (case s of (c, w) \<Rightarrow>
        (case analyser c of
           None \<Rightarrow> (c, w)
         | Some an \<Rightarrow>
             let dataArray = getByteFrequencyData an (replicate (frequencyBinCount an) 0);
                 c1 = c\<lparr>bars := take 64 (map unat dataArray)\<rparr>;
                 (i, w2) = requestAnimationFrame w
             in (c1\<lparr>animationFrameId := Some i\<rparr>, w2)))"

subsection \<open>Creating the pipeline\<close>

text \<open>
  How the fallible steps of \<^verbatim>\<open>initAudio\<close> (\<^verbatim>\<open>part_001\<close>) end: the constructor of
  \<^verbatim>\<open>AudioAnalysis\<close> returns an object or throws, the awaited resume resolves or rejects,
  and the promise of \<^verbatim>\<open>play()\<close> resolves or rejects.
\<close>

record init_outcome =
  constructed :: "error + analysis"
  resumed :: "error option"
  played :: "error option"

text \<open>
  The body of the \<^verbatim>\<open>try\<close>, with the state at the throw. The awaits are run through:
  nothing else is interleaved with one call of the function.
\<close>

definition initAudio_body :: "init_outcome \<Rightarrow> state \<Rightarrow> (error + unit) \<times> state" where
  "initAudio_body out s =
     (case s of (c, w) \<Rightarrow>
        let w1 = (case animationFrameId c of
                    Some i \<Rightarrow> if i \<noteq> 0 then cancelAnimationFrame i w else w
                  | None \<Rightarrow> w);
            w2 = (case audioElement c of Some el \<Rightarrow> external ElementPause w1 | None \<Rightarrow> w1);
            c2 = c\<lparr>audioElement := None\<rparr>\<lparr>audioElement := Some new_audio\<rparr>
        in (case constructed out of
              Inl e \<Rightarrow> (Inl e, c2, w2)
            | Inr a \<Rightarrow>
                let c3 = c2\<lparr>audioAnalysis := Some a\<rparr>;
                    w3 = external AnalysisResume w2
                in (case resumed out of
                      Some e \<Rightarrow> (Inl e, c3, w3)
                    | None \<Rightarrow>
                        let s4 = updateVisualization (c3, external ElementPlay w3)
                        in (Inr (), (case played out of None \<Rightarrow> s4 | Some e \<Rightarrow> play_rejected s4)))))"

text \<open>The \<^verbatim>\<open>catch\<close> of \<^verbatim>\<open>initAudio\<close> logs and clears \<open>isPlaying\<close>; it does not rethrow.\<close>

definition initAudio :: "init_outcome \<Rightarrow> state \<Rightarrow> (error + unit) \<times> state" where
  "initAudio out s =
     (case initAudio_body out s of
        (Inl e, c, w) \<Rightarrow> (Inr (), c\<lparr>isPlaying := False\<rparr>, console_error AudioInitFailed w)
      | (Inr u, c, w) \<Rightarrow> (Inr (), c, w))"

text \<open>
  \<^verbatim>\<open>part_000\<close>: closing the old context, constructing the new one (which throws or gives
  a context), connecting the element to it, the awaited resume, and \<^verbatim>\<open>play()\<close>.
\<close>

record init_outcome_ctx =
  closed :: "error option"
  created :: "error + audio_context"
  connected :: "error option"
  resumed_ctx :: "error option"
  played_ctx :: "error option"

text \<open>
  The analyser \<^verbatim>\<open>initAudio\<close> creates and configures; before any audio has been processed
  its spectrum is all zero.
\<close>

definition new_analyser :: analyser_node where
  "new_analyser =
     \<lparr>fftSize = 256, smoothingTimeConstant = 8 / 10, byteFrequencyData = replicate 128 0\<rparr>"

definition initAudio_ctx_body :: "init_outcome_ctx \<Rightarrow> state \<Rightarrow> (error + unit) \<times> state" where
  "initAudio_ctx_body out s =
     (case s of (c, w) \<Rightarrow>
        let w1 = (case audioContext c of Some old \<Rightarrow> external ContextClose w | None \<Rightarrow> w) in
        (case (case audioContext c of Some old \<Rightarrow> closed out | None \<Rightarrow> None) of
           Some e \<Rightarrow> (Inl e, c, w1)
         | None \<Rightarrow>
             let c1 = c\<lparr>audioContext :=
                        map_option (\<lambda>old. old\<lparr>ctxState := Closed\<rparr>) (audioContext c)\<rparr>
             in
             (case created out of
                Inl e \<Rightarrow> (Inl e, c1, w1)
              | Inr ctx \<Rightarrow>
                  let c2 = c1\<lparr>audioContext := Some ctx, analyser := Some new_analyser\<rparr>;
                      w2 = (case audioElement c2 of
                              Some el \<Rightarrow> external ElementPause w1
                            | None \<Rightarrow> w1);
                      c3 = c2\<lparr>audioElement := None\<rparr>\<lparr>audioElement := Some new_audio\<rparr>
                  in (case connected out of
                        Some e \<Rightarrow> (Inl e, c3, w2)
                      | None \<Rightarrow>
                          let w3 = external ContextResume w2 in
                          (case resumed_ctx out of
                             Some e \<Rightarrow> (Inl e, c3, w3)
                           | None \<Rightarrow>
                               let c4 = c3\<lparr>audioContext := Some (ctx\<lparr>ctxState := Running\<rparr>)\<rparr>;
                                   s5 = updateVisualization_ctx (c4, external ElementPlay w3)
                               in (Inr (),
                                   (case played_ctx out of
                                      None \<Rightarrow> s5
                                    | Some e \<Rightarrow> play_rejected s5)))))))"

definition initAudio_ctx :: "init_outcome_ctx \<Rightarrow> state \<Rightarrow> (error + unit) \<times> state" where
  "initAudio_ctx out s =
     (case initAudio_ctx_body out s of
        (Inl e, c, w) \<Rightarrow> (Inr (), c\<lparr>isPlaying := False\<rparr>, console_error AudioInitFailed w)
      | (Inr u, c, w) \<Rightarrow> (Inr (), c, w))"

subsection \<open>Reconnecting and the liveness probe\<close>

text \<open>
  \<^verbatim>\<open>reconnectAudio\<close>: the \<^verbatim>\<open>catch\<close> logs and asks for another call in 5000 ms; it runs
  when the awaited \<^verbatim>\<open>initAudio\<close> rejects. Pausing an element does not throw.
\<close>

definition reconnectAudio :: "init_outcome \<Rightarrow> state \<Rightarrow> (error + unit) \<times> state" where
  "reconnectAudio out s =
     (case s of (c, w) \<Rightarrow>
        let w0 = w\<lparr>attempts := Suc (attempts w)\<rparr>;
            w1 = (case audioElement c of Some el \<Rightarrow> external ElementPause w0 | None \<Rightarrow> w0)
        in (case initAudio out (c, w1) of
              (Inr u, c2, w2) \<Rightarrow> (Inr (), c2, w2)
            | (Inl e, c2, w2) \<Rightarrow>
                (Inr (), c2, setTimeout ReconnectAudio 5000 (console_error ReconnectFailed w2))))"

definition reconnectAudio_ctx :: "init_outcome_ctx \<Rightarrow> state \<Rightarrow> (error + unit) \<times> state" where
  "reconnectAudio_ctx out s =
     (case s of (c, w) \<Rightarrow>
        let w0 = w\<lparr>attempts := Suc (attempts w)\<rparr>;
            w1 = (case audioElement c of Some el \<Rightarrow> external ElementPause w0 | None \<Rightarrow> w0)
        in (case initAudio_ctx out (c, w1) of
              (Inr u, c2, w2) \<Rightarrow> (Inr (), c2, w2)
            | (Inl e, c2, w2) \<Rightarrow>
                (Inr (), c2, setTimeout ReconnectAudio 5000 (console_error ReconnectFailed w2))))"

text \<open>
  The callback of \<^verbatim>\<open>audioCheckInterval\<close>, run every 10000 ms. The promise of
  \<^verbatim>\<open>reconnectAudio()\<close> is dropped.
\<close>

definition audioCheckInterval :: "init_outcome \<Rightarrow> state \<Rightarrow> state" where
  "audioCheckInterval out s =
     (case s of (c, w) \<Rightarrow>
        (case audioElement c of
           None \<Rightarrow> (c, w)
         | Some el \<Rightarrow>
             if readyState el = 0 \<and> isPlaying c
             then snd (reconnectAudio out (c, console_log ConnectionLost w))
             else (c, w)))"

definition audioCheckInterval_ctx :: "init_outcome_ctx \<Rightarrow> state \<Rightarrow> state" where
  "audioCheckInterval_ctx out s =
     (case s of (c, w) \<Rightarrow>
        let w1 = (case audioContext c of
                    Some ctx \<Rightarrow> if ctxState ctx = Suspended then external ContextResume w else w
                  | None \<Rightarrow> w)
        in (case audioElement c of
              None \<Rightarrow> (c, w1)
            | Some el \<Rightarrow>
                if readyState el = 0 \<and> isPlaying c
                then snd (reconnectAudio_ctx out (c, console_log ConnectionLost w1))
                else (c, w1)))"

subsection \<open>The platform runs a requested frame\<close>

text \<open>A pending request is taken off the list and its callback, the tick, runs.\<close>

definition animation_frame :: "nat \<Rightarrow> state \<Rightarrow> state" where
  "animation_frame i s =
     (case s of (c, w) \<Rightarrow>
        if i \<in> set (frames w) then updateVisualization (c, w\<lparr>frames := removeAll i (frames w)\<rparr>)
        else (c, w))"

definition animation_frame_ctx :: "nat \<Rightarrow> state \<Rightarrow> state" where
  "animation_frame_ctx i s =
     (case s of (c, w) \<Rightarrow>
        if i \<in> set (frames w)
        then updateVisualization_ctx (c, w\<lparr>frames := removeAll i (frames w)\<rparr>)
        else (c, w))"

text \<open>
  At most one tick loop: no request is pending, or exactly one, which is the one the
  component remembers in \<open>animationFrameId\<close>.
\<close>

definition single_loop :: "state \<Rightarrow> bool" where
  "single_loop s =
     (case s of (c, w) \<Rightarrow>
        (case frames w of
           [] \<Rightarrow> True
         | [i] \<Rightarrow> animationFrameId c = Some i \<and> i \<noteq> 0
         | _ \<Rightarrow> False))"

subsection \<open>The state at mount\<close>

definition initial_component :: component where
  "initial_component =
     \<lparr>audioContext = None, analyser = None, audioElement = None, audioAnalysis = None,
      animationFrameId = None, bars = replicate 64 0, frequencyValues = replicate 64 0,
      currentSong = \<lparr>title = JStr ''Loading...'', artist = JStr []\<rparr>,
      themeColor = ''#3498db'', isPinned = True, isMousePassthrough = False,
      isPlaying = False\<rparr>"

definition initial_world :: world where
  "initial_world =
     \<lparr>effects = [], console = [], frames = [], frameCounter = 0, timeouts = [], attempts = 0\<rparr>"

subsection \<open>The polling revision's pipeline (\<^verbatim>\<open>+page.svelte\<close>)\<close>

text \<open>The polling revision sets no volume: the element keeps the default 1.\<close>

definition new_audio_page :: audio where
  "new_audio_page = \<lparr>src = streamUrl, crossOrigin = ''anonymous'', volume = 1, readyState = 0\<rparr>"

text \<open>
  \<^verbatim>\<open>initAudio\<close> of \<^verbatim>\<open>+page.svelte\<close>: synchronous, nothing is cleaned up, the
  \<^verbatim>\<open>catch\<close> only logs. Of the outcomes only the construction of the context, the
  connection of the element and the promise of \<^verbatim>\<open>play()\<close> are read.
\<close>

definition initAudio_page :: "init_outcome_ctx \<Rightarrow> state \<Rightarrow> state" where
  "initAudio_page out s =
     (case s of (c, w) \<Rightarrow>
        (case created out of
           Inl e \<Rightarrow> (c, console_error AudioInitFailed w)
         | Inr ctx \<Rightarrow>
             let c2 = c\<lparr>audioContext := Some ctx, analyser := Some new_analyser,
                        audioElement := Some new_audio_page\<rparr>
             in (case connected out of
                   Some e \<Rightarrow> (c2, console_error AudioInitFailed w)
                 | None \<Rightarrow>
                     (case updateVisualization_page (c2, external ElementPlay w) of
                        (c3, w3) \<Rightarrow>
                          (case played_ctx out of
                             None \<Rightarrow> (c3, w3)
                           | Some e \<Rightarrow> (c3, console_error PlayFailed w3))))))"

text \<open>The analyser, when there is one, is configured as \<^verbatim>\<open>initAudio\<close> configures it.\<close>

definition analyser_configured :: "component \<Rightarrow> bool" where
  "analyser_configured c = (case analyser c of None \<Rightarrow> True | Some an \<Rightarrow> fftSize an = 256)"

subsection \<open>Example outcomes and states\<close>

text \<open>Every fallible step of \<^verbatim>\<open>initAudio\<close> succeeds.\<close>

definition all_ok :: init_outcome where
  "all_ok =
     \<lparr>constructed = Inr \<lparr>suspended = False, frequencies = Inr (replicate 128 0)\<rparr>,
      resumed = None, played = None\<rparr>"

definition all_ok_ctx :: init_outcome_ctx where
  "all_ok_ctx =
     \<lparr>closed = None, created = Inr \<lparr>ctxState = Suspended\<rparr>, connected = None,
      resumed_ctx = None, played_ctx = None\<rparr>"

text \<open>The constructor of the analysis (or of the audio context) throws.\<close>

definition ctor_throws :: init_outcome where
  "ctor_throws = \<lparr>constructed = Inl AudioError, resumed = None, played = None\<rparr>"

definition ctor_throws_ctx :: init_outcome_ctx where
  "ctor_throws_ctx =
     \<lparr>closed = None, created = Inl AudioError, connected = None,
      resumed_ctx = None, played_ctx = None\<rparr>"

text \<open>The pipeline is built, and the promise of \<^verbatim>\<open>play()\<close> rejects: the stream cannot be played.\<close>

definition play_rejects :: init_outcome where
  "play_rejects = all_ok\<lparr>played := Some NetworkError\<rparr>"

definition play_rejects_ctx :: init_outcome_ctx where
  "play_rejects_ctx = all_ok_ctx\<lparr>played_ctx := Some NetworkError\<rparr>"

text \<open>
  The component after mount, once the element has data and has reported \<^verbatim>\<open>playing\<close>:
  the pipeline exists, one tick is pending.
\<close>

definition mounted :: state where
  "mounted =
     on_playing (ready_state_changes 4 (snd (initAudio all_ok (initial_component, initial_world))))"

definition mounted_ctx :: state where
  "mounted_ctx =
     on_playing
       (ready_state_changes 4 (snd (initAudio_ctx all_ok_ctx (initial_component, initial_world))))"

text \<open>
  The stream is lost: the element is back at "nothing received" and no \<^verbatim>\<open>pause\<close> or
  \<^verbatim>\<open>error\<close> event has cleared \<open>isPlaying\<close>. This is the state the probe looks for.
\<close>

definition stalled :: state where
  "stalled = ready_state_changes 0 mounted"

definition stalled_ctx :: state where
  "stalled_ctx = ready_state_changes 0 mounted_ctx"

text \<open>
  A component whose analysis yields two bins only, beside a configured byte-mode analyser
  that holds a spectrum of 128 bins: 5 in the first, 200 in the others.
\<close>

definition two_bins :: analysis where
  "two_bins = \<lparr>suspended = False, frequencies = Inr [3 / 10, 1 / 2]\<rparr>"

definition loud_analyser :: analyser_node where
  "loud_analyser = new_analyser\<lparr>byteFrequencyData := 5 # replicate 127 200\<rparr>"

definition two_bin_component :: component where
  "two_bin_component =
     initial_component\<lparr>audioContext := Some \<lparr>ctxState = Running\<rparr>,
       analyser := Some loud_analyser, audioAnalysis := Some two_bins\<rparr>"

subsection \<open>The states of the running component (\<^verbatim>\<open>part_001\<close>)\<close>

text \<open>
  Mounting runs \<^verbatim>\<open>initAudio\<close> on the initial variables; from then on the platform
  delivers one event at a time: a requested frame, the probe's timer, a host event, a click
  on a control, an event of the audio element, new readiness or new audio data.
\<close>

inductive reachable :: "state \<Rightarrow> bool" where
  mount: "reachable (snd (initAudio out (initial_component, initial_world)))"
| frame: "reachable s \<Longrightarrow> reachable (animation_frame i s)"
| probe: "reachable s \<Longrightarrow> reachable (audioCheckInterval out s)"
| song: "reachable s \<Longrightarrow> reachable (song_info_update payload s)"
| pin: "reachable s \<Longrightarrow> reachable (snd (setAlwaysOnTop flag win host s))"
| passthrough: "reachable s \<Longrightarrow> reachable (snd (setMousePassthrough flag win host s))"
| theme: "reachable s \<Longrightarrow> reachable (snd (changeThemeColor color host s))"
| playing: "reachable s \<Longrightarrow> reachable (on_playing s)"
| paused: "reachable s \<Longrightarrow> reachable (on_pause s)"
| failed: "reachable s \<Longrightarrow> reachable (on_error s)"
| ready: "reachable s \<Longrightarrow> reachable (ready_state_changes n s)"
| audio: "reachable s \<Longrightarrow> reachable (audio_data_arrives v s)"

text \<open>The published vector has 64 elements and at most one tick loop is active.\<close>

definition pipeline_ok :: "state \<Rightarrow> bool" where
  "pipeline_ok s = (length (frequencyValues (fst s)) = 64 \<and> single_loop s)"

section \<open>Properties\<close>

subsection \<open>Auxiliary facts\<close>

lemma js_or_not_nullish: "b \<noteq> Null \<Longrightarrow> b \<noteq> Undefined \<Longrightarrow> js_or a b \<noteq> Null \<and> js_or a b \<noteq> Undefined"
  by (cases a) (simp_all add: js_or_def)

lemma js_or_nullish: "a = Null \<or> a = Undefined \<Longrightarrow> js_or a b = b"
  by (auto simp: js_or_def)

lemma getByteFrequencyData_length: "length (getByteFrequencyData an arr) = length arr"
  by (simp add: getByteFrequencyData_def)

lemma updateVisualization_analysis:
  "audioAnalysis (fst (updateVisualization s)) = audioAnalysis (fst s)"
  by (cases s)
     (simp add: updateVisualization_def requestAnimationFrame_def Let_def
           split: option.splits sum.splits)

lemma updateVisualization_values:
  "frequencyValues (fst (updateVisualization (c, w))) =
     (case audioAnalysis c of
        None \<Rightarrow> frequencyValues c
      | Some a \<Rightarrow>
          (case getFrequencies a of
             Inl e \<Rightarrow> frequencyValues c
           | Inr values \<Rightarrow>
               if 64 \<le> length values then take 64 values
               else values @ replicate (64 - length values) 0))"
  by (simp add: updateVisualization_def requestAnimationFrame_def Let_def
           split: option.splits sum.splits)

lemma updateVisualization_ctx_bars:
  "bars (fst (updateVisualization_ctx (c, w))) =
     (case analyser c of
        None \<Rightarrow> bars c
      | Some an \<Rightarrow>
          (case audioContext c of
             None \<Rightarrow> bars c
           | Some ctx \<Rightarrow>
               take 64 (map unat (getByteFrequencyData an (replicate (frequencyBinCount an) 0)))))"
  by (simp add: updateVisualization_ctx_def requestAnimationFrame_def Let_def
           split: option.splits)

lemma updateVisualization_page_bars:
  "bars (fst (updateVisualization_page (c, w))) =
     (case analyser c of
        None \<Rightarrow> bars c
      | Some an \<Rightarrow>
          take 64 (map unat (getByteFrequencyData an (replicate (frequencyBinCount an) 0))))"
  by (simp add: updateVisualization_page_def requestAnimationFrame_def Let_def
           split: option.splits)

lemma updateVisualization_ctx_keeps:
  "analyser (fst (updateVisualization_ctx s)) = analyser (fst s) \<and>
   audioContext (fst (updateVisualization_ctx s)) = audioContext (fst s)"
  by (cases s)
     (simp add: updateVisualization_ctx_def requestAnimationFrame_def Let_def
           split: option.splits)

lemma updateVisualization_page_keeps:
  "analyser (fst (updateVisualization_page s)) = analyser (fst s)"
  by (cases s)
     (simp add: updateVisualization_page_def requestAnimationFrame_def Let_def
           split: option.splits)

subsection \<open>The frequency vector\<close>

lemma byte_bins_nth:
  assumes "fftSize an = 256" and "i < 64"
  shows "take 64 (map unat (getByteFrequencyData an (replicate (frequencyBinCount an) 0))) ! i =
         (if i < length (byteFrequencyData an) then unat (byteFrequencyData an ! i) else 0)"
proof -
  let ?d = "byteFrequencyData an"
  let ?arr = "take 128 ?d @ replicate (128 - length ?d) (0 :: 8 word)"
  have arr: "getByteFrequencyData an (replicate (frequencyBinCount an) 0) = ?arr"
    using assms(1) by (simp add: getByteFrequencyData_def frequencyBinCount_def)
  have len: "length ?arr = 128"
    by simp
  from assms(2) have i: "i < 128" by simp
  with len have inside: "i < length ?arr"
    by (simp only:)
  have "take 64 (map unat ?arr) ! i = map unat ?arr ! i"
    using assms(2) by (rule nth_take)
  also from inside have "\<dots> = unat (?arr ! i)"
    by (rule nth_map)
  also have "\<dots> = (if i < length ?d then unat (?d ! i) else 0)"
    using i by (simp add: nth_append)
  finally show ?thesis
    unfolding arr .
qed

text \<open>
  Claim C1. Every tick leaves the published frequency vector with exactly 64 elements,
  whatever number of bins the analyser yields: element \<open>i\<close> is bin \<open>i\<close> where the analyser
  has one and zero where it has not, so more than 64 bins are cut to the first 64 and
  fewer are padded with zeros. A tick whose pull throws, or that finds no analysis object,
  leaves the vector as it was. In the byte-mode revisions the tick only cuts: with the
  analyser configured as \<^verbatim>\<open>initAudio\<close> configures it (\<open>fftSize = 256\<close>, hence 128 bins)
  the published vector is the first 64 bins of the analyser's spectrum, read as numbers.
\<close>

theorem frequency_vector_always_64:
  "(length (frequencyValues c) = 64 \<longrightarrow>
      length (frequencyValues (fst (updateVisualization (c, w)))) = 64) \<and>
   (audioAnalysis c = Some a \<and> getFrequencies a = Inr values \<longrightarrow>
      length (frequencyValues (fst (updateVisualization (c, w)))) = 64 \<and>
      (\<forall>i<64. frequencyValues (fst (updateVisualization (c, w))) ! i =
                (if i < length values then values ! i else 0))) \<and>
   (length (bars c) = 64 \<and> analyser_configured c \<longrightarrow>
      length (bars (fst (updateVisualization_ctx (c, w)))) = 64 \<and>
      length (bars (fst (updateVisualization_page (c, w)))) = 64) \<and>
   (analyser c = Some an \<and> audioContext c = Some ctx \<and> fftSize an = 256 \<longrightarrow>
      length (bars (fst (updateVisualization_ctx (c, w)))) = 64 \<and>
      (\<forall>i<64. bars (fst (updateVisualization_ctx (c, w))) ! i =
                (if i < length (byteFrequencyData an) then unat (byteFrequencyData an ! i)
                 else 0))) \<and>
   (analyser c = Some an \<and> fftSize an = 256 \<longrightarrow>
      length (bars (fst (updateVisualization_page (c, w)))) = 64 \<and>
      (\<forall>i<64. bars (fst (updateVisualization_page (c, w))) ! i =
                (if i < length (byteFrequencyData an) then unat (byteFrequencyData an ! i)
                 else 0)))"
proof (intro conjI impI)
  assume "length (frequencyValues c) = 64"
  then show "length (frequencyValues (fst (updateVisualization (c, w)))) = 64"
    by (simp add: updateVisualization_values split: option.splits sum.splits)
next
  assume h: "audioAnalysis c = Some a \<and> getFrequencies a = Inr values"
  then show "length (frequencyValues (fst (updateVisualization (c, w)))) = 64"
    by (simp add: updateVisualization_values)
  from h show "\<forall>i<64. frequencyValues (fst (updateVisualization (c, w))) ! i =
                 (if i < length values then values ! i else 0)"
    by (simp add: updateVisualization_values nth_append)
next
  assume h: "length (bars c) = 64 \<and> analyser_configured c"
  then show "length (bars (fst (updateVisualization_ctx (c, w)))) = 64"
    by (simp add: updateVisualization_ctx_bars getByteFrequencyData_length
          frequencyBinCount_def analyser_configured_def split: option.splits)
  from h show "length (bars (fst (updateVisualization_page (c, w)))) = 64"
    by (simp add: updateVisualization_page_bars getByteFrequencyData_length
          frequencyBinCount_def analyser_configured_def split: option.splits)
next
  assume h: "analyser c = Some an \<and> audioContext c = Some ctx \<and> fftSize an = 256"
  then have b: "bars (fst (updateVisualization_ctx (c, w))) =
      take 64 (map unat (getByteFrequencyData an (replicate (frequencyBinCount an) 0)))"
    by (simp add: updateVisualization_ctx_bars)
  from h show "length (bars (fst (updateVisualization_ctx (c, w)))) = 64"
    by (simp add: b getByteFrequencyData_length frequencyBinCount_def)
  from h show "\<forall>i<64. bars (fst (updateVisualization_ctx (c, w))) ! i =
      (if i < length (byteFrequencyData an) then unat (byteFrequencyData an ! i) else 0)"
    unfolding b using byte_bins_nth [of an] by blast
next
  assume h: "analyser c = Some an \<and> fftSize an = 256"
  then have b: "bars (fst (updateVisualization_page (c, w))) =
      take 64 (map unat (getByteFrequencyData an (replicate (frequencyBinCount an) 0)))"
    by (simp add: updateVisualization_page_bars)
  from h show "length (bars (fst (updateVisualization_page (c, w)))) = 64"
    by (simp add: b getByteFrequencyData_length frequencyBinCount_def)
  from h show "\<forall>i<64. bars (fst (updateVisualization_page (c, w))) ! i =
      (if i < length (byteFrequencyData an) then unat (byteFrequencyData an ! i) else 0)"
    unfolding b using byte_bins_nth [of an] by blast
qed

theorem frequency_vector_always_64_witness:
  "length (frequencyValues two_bin_component) = 64 \<and>
   audioAnalysis two_bin_component = Some two_bins \<and>
   getFrequencies two_bins = Inr [3 / 10, 1 / 2] \<and>
   length (bars two_bin_component) = 64 \<and>
   analyser_configured two_bin_component \<and>
   analyser two_bin_component = Some loud_analyser \<and>
   audioContext two_bin_component = Some \<lparr>ctxState = Running\<rparr> \<and>
   fftSize loud_analyser = 256 \<and>
   length (frequencyValues (fst (updateVisualization (two_bin_component, initial_world)))) = 64 \<and>
   frequencyValues (fst (updateVisualization (two_bin_component, initial_world))) ! 1 = 1 / 2 \<and>
   frequencyValues (fst (updateVisualization (two_bin_component, initial_world))) ! 2 = 0 \<and>
   bars two_bin_component ! 0 = 0 \<and>
   bars two_bin_component ! 1 = 0 \<and>
   length (bars (fst (updateVisualization_ctx (two_bin_component, initial_world)))) = 64 \<and>
   bars (fst (updateVisualization_ctx (two_bin_component, initial_world))) ! 0 = 5 \<and>
   bars (fst (updateVisualization_ctx (two_bin_component, initial_world))) ! 1 = 200 \<and>
   length (bars (fst (updateVisualization_page (two_bin_component, initial_world)))) = 64 \<and>
   bars (fst (updateVisualization_page (two_bin_component, initial_world))) ! 0 = 5 \<and>
   bars (fst (updateVisualization_page (two_bin_component, initial_world))) ! 63 = 200"
  using frequency_vector_always_64
    [of two_bin_component initial_world two_bins "[3 / 10, 1 / 2]" loud_analyser
      "\<lparr>ctxState = Running\<rparr>"]
  by (simp add: two_bin_component_def two_bins_def loud_analyser_def initial_component_def
        getFrequencies_def analyser_configured_def new_analyser_def)

text \<open>
  The byte-mode tick itself does not pad: it publishes as many elements as the analyser
  has bins, up to 64. That the number is 64 rests on the configuration above.
\<close>

lemma byte_tick_length:
  "analyser c = Some an \<Longrightarrow> audioContext c = Some ctx \<Longrightarrow>
   length (bars (fst (updateVisualization_ctx (c, w)))) = min 64 (frequencyBinCount an)"
  "analyser c = Some an \<Longrightarrow>
   length (bars (fst (updateVisualization_page (c, w)))) = min 64 (frequencyBinCount an)"
  by (simp_all add: updateVisualization_ctx_bars updateVisualization_page_bars
        getByteFrequencyData_length)

subsection \<open>Track metadata\<close>

lemma song_of_title:
  "title (song_of p) = js_or (title p) (JStr ''Unknown Title'')"
  by (simp add: song_of_def)

lemma song_of_artist:
  "artist (song_of p) = js_or (artist p) (JStr ''Unknown Artist'')"
  by (simp add: song_of_def)

lemma song_info_update_song:
  "currentSong (fst (song_info_update p s)) = song_of p"
  by (cases s) (simp add: song_info_update_def)

lemma fetchCurrentSong_song:
  "currentSong
     (fst (fetchCurrentSong (Inr \<lparr>icestats = Some \<lparr>source = Some (Some p # rest)\<rparr>\<rparr>) s)) =
   song_of p"
  by (cases s) (simp add: fetchCurrentSong_def)

text \<open>
  Claim C4. An inbound metadata update, pushed by the host or polled from the status
  document, stores the sentinel for every field of the payload that is absent
  (\<^verbatim>\<open>undefined\<close>) or \<^verbatim>\<open>null\<close>: the payload \<^verbatim>\<open>{title: null, artist: "X"}\<close> is stored as
  \<^verbatim>\<open>{title: "Unknown Title", artist: "X"}\<close>, an absent artist as \<^verbatim>\<open>"Unknown Artist"\<close>, and
  no stored field is ever \<^verbatim>\<open>null\<close> or \<^verbatim>\<open>undefined\<close>, whatever the payload holds.
\<close>

theorem metadata_defaults_to_sentinels:
  "currentSong (fst (song_info_update \<lparr>title = Null, artist = JStr ''X''\<rparr> s)) =
     \<lparr>title = JStr ''Unknown Title'', artist = JStr ''X''\<rparr> \<and>
   (title p = Null \<or> title p = Undefined \<longrightarrow>
      title (currentSong (fst (song_info_update p s))) = JStr ''Unknown Title'') \<and>
   (artist p = Null \<or> artist p = Undefined \<longrightarrow>
      artist (currentSong (fst (song_info_update p s))) = JStr ''Unknown Artist'') \<and>
   title (currentSong (fst (song_info_update p s))) \<noteq> Null \<and>
   title (currentSong (fst (song_info_update p s))) \<noteq> Undefined \<and>
   artist (currentSong (fst (song_info_update p s))) \<noteq> Null \<and>
   artist (currentSong (fst (song_info_update p s))) \<noteq> Undefined \<and>
   currentSong
     (fst (fetchCurrentSong (Inr \<lparr>icestats = Some \<lparr>source = Some (Some p # rest)\<rparr>\<rparr>) s)) =
     currentSong (fst (song_info_update p s))"
proof -
  have sentinel: "JStr ''Unknown Title'' \<noteq> Null" "JStr ''Unknown Title'' \<noteq> Undefined"
    "JStr ''Unknown Artist'' \<noteq> Null" "JStr ''Unknown Artist'' \<noteq> Undefined"
    by simp_all
  have example: "song_of \<lparr>title = Null, artist = JStr ''X''\<rparr> =
      \<lparr>title = JStr ''Unknown Title'', artist = JStr ''X''\<rparr>"
    by (simp add: song_of_def js_or_def)
  show ?thesis
    using js_or_not_nullish [OF sentinel(1,2), of "title p"]
      js_or_not_nullish [OF sentinel(3,4), of "artist p"]
      js_or_nullish [of "title p" "JStr ''Unknown Title''"]
      js_or_nullish [of "artist p" "JStr ''Unknown Artist''"]
    by (simp add: song_info_update_song fetchCurrentSong_song song_of_title song_of_artist
          example)
qed

theorem metadata_defaults_to_sentinels_witness:
  "(title \<lparr>title = Undefined, artist = Null\<rparr> = Null \<or>
    title \<lparr>title = Undefined, artist = Null\<rparr> = Undefined) \<and>
   (artist \<lparr>title = Undefined, artist = Null\<rparr> = Null \<or>
    artist \<lparr>title = Undefined, artist = Null\<rparr> = Undefined) \<and>
   currentSong
     (fst (song_info_update \<lparr>title = Undefined, artist = Null\<rparr>
        (initial_component, initial_world))) =
     \<lparr>title = JStr ''Unknown Title'', artist = JStr ''Unknown Artist''\<rparr>"
  using metadata_defaults_to_sentinels
    [of "(initial_component, initial_world)" "\<lparr>title = Undefined, artist = Null\<rparr>"]
  by (simp add: song_info_update_def song_of_def js_or_def)

text \<open>
  Claim C10. A \<^verbatim>\<open>song-info-update\<close> event replaces the stored metadata as a whole: what
  is stored afterwards is a function of the payload alone, the same from any two earlier
  states, so a payload that carries only a title leaves \<^verbatim>\<open>"Unknown Artist"\<close> as the artist
  and nothing of the artist stored before.
\<close>

theorem metadata_replaced_wholesale:
  "currentSong (fst (song_info_update p (c, w))) =
     currentSong (fst (song_info_update p (c', w'))) \<and>
   title (currentSong (fst (song_info_update p (c, w)))) =
     js_or (title p) (JStr ''Unknown Title'') \<and>
   artist (currentSong (fst (song_info_update p (c, w)))) =
     js_or (artist p) (JStr ''Unknown Artist'') \<and>
   currentSong
     (fst (song_info_update \<lparr>title = JStr (x # t), artist = Undefined\<rparr>
        (c\<lparr>currentSong := \<lparr>title = old_title, artist = old_artist\<rparr>\<rparr>, w))) =
     \<lparr>title = JStr (x # t), artist = JStr ''Unknown Artist''\<rparr>"
  by (simp add: song_info_update_def song_of_def js_or_def)

subsection \<open>Window setters\<close>

lemma await_call_result:
  "fst (await_call k outcome w) = (case outcome of None \<Rightarrow> Inr () | Some e \<Rightarrow> Inl e)"
  by (simp add: await_call_def)

lemma await_call_world: "snd (await_call k outcome w) = external k w"
  by (simp add: await_call_def)

lemma setAlwaysOnTop_component:
  "fst (snd (setAlwaysOnTop flag win host s)) = (fst s)\<lparr>isPinned := flag\<rparr>"
  by (cases s) (simp add: setAlwaysOnTop_def await_call_def Let_def split: option.splits)

lemma setMousePassthrough_component:
  "fst (snd (setMousePassthrough flag win host s)) = (fst s)\<lparr>isMousePassthrough := flag\<rparr>"
  by (cases s) (simp add: setMousePassthrough_def await_call_def Let_def split: option.splits)

lemma changeThemeColor_component:
  "fst (snd (changeThemeColor color host s)) = (fst s)\<lparr>themeColor := color\<rparr>"
  by (cases s) (simp add: changeThemeColor_def await_call_def Let_def split: option.splits)

text \<open>
  Claim C6, as the source has it. What a setter does is, in this order: the write of its
  local variable, then (pin and click-through) the call of the local window, then, only
  when that call has resolved, the notification of the host; the theme setter notifies the
  host right after its write. The write therefore stands whatever the calls do. A failed
  call is not caught: it is the rejection of the setter's promise, the console is left as
  it was, and nothing is rolled back.
\<close>

theorem setters_local_first_no_rollback:
  "isPinned (fst (snd (setAlwaysOnTop flag win host (c, w)))) = flag \<and>
   effects (snd (snd (setAlwaysOnTop flag win host (c, w)))) =
     effects w @ Wrote IsPinned (Flag flag) # Called (WindowSetAlwaysOnTop flag) #
       (if win = None then [Called (Invoke ''set_always_on_top'' (Flag flag))] else []) \<and>
   console (snd (snd (setAlwaysOnTop flag win host (c, w)))) = console w \<and>
   fst (setAlwaysOnTop flag win host (c, w)) =
     (case win of Some e \<Rightarrow> Inl e | None \<Rightarrow> (case host of Some e \<Rightarrow> Inl e | None \<Rightarrow> Inr ())) \<and>
   isMousePassthrough (fst (snd (setMousePassthrough flag win host (c, w)))) = flag \<and>
   effects (snd (snd (setMousePassthrough flag win host (c, w)))) =
     effects w @ Wrote IsMousePassthrough (Flag flag) # Called (WindowSetIgnoreCursorEvents flag) #
       (if win = None then [Called (Invoke ''set_mouse_passthrough'' (Flag flag))] else []) \<and>
   console (snd (snd (setMousePassthrough flag win host (c, w)))) = console w \<and>
   fst (setMousePassthrough flag win host (c, w)) =
     (case win of Some e \<Rightarrow> Inl e | None \<Rightarrow> (case host of Some e \<Rightarrow> Inl e | None \<Rightarrow> Inr ())) \<and>
   themeColor (fst (snd (changeThemeColor color host (c, w)))) = color \<and>
   effects (snd (snd (changeThemeColor color host (c, w)))) =
     effects w @ [Wrote ThemeColor (Color color),
       Called (Invoke ''change_theme_color'' (Color color))] \<and>
   console (snd (snd (changeThemeColor color host (c, w)))) = console w \<and>
   fst (changeThemeColor color host (c, w)) =
     (case host of Some e \<Rightarrow> Inl e | None \<Rightarrow> Inr ())"
  by (simp add: setAlwaysOnTop_def setMousePassthrough_def changeThemeColor_def
        await_call_def external_def wrote_def Let_def split: option.splits)

text \<open>
  Claim C6 as stated fails where it says the failure is logged: the host rejects the
  notification of a pin change; the write, the window call and the notification have
  been made in that order, the local flag stays changed, and the console stays empty.
\<close>

theorem host_failure_not_logged:
  "fst (setAlwaysOnTop False None (Some HostError) (initial_component, initial_world)) =
     Inl HostError \<and>
   isPinned (fst (snd (setAlwaysOnTop False None (Some HostError)
     (initial_component, initial_world)))) = False \<and>
   effects (snd (snd (setAlwaysOnTop False None (Some HostError)
     (initial_component, initial_world)))) =
     [Wrote IsPinned (Flag False), Called (WindowSetAlwaysOnTop False),
      Called (Invoke ''set_always_on_top'' (Flag False))] \<and>
   console (snd (snd (setAlwaysOnTop False None (Some HostError)
     (initial_component, initial_world)))) = []"
  by (simp add: setAlwaysOnTop_def await_call_def external_def wrote_def Let_def
        initial_world_def)

text \<open>
  Claim C7. Two presses of the pin button in succession give back the pinned flag, and
  with it the whole of the component's variables, whatever the window and the host answer
  to either press.
\<close>

theorem pin_toggle_twice:
  "isPinned (fst (snd (pin_toggle win2 host2 (snd (pin_toggle win1 host1 s))))) =
     isPinned (fst s) \<and>
   fst (snd (pin_toggle win2 host2 (snd (pin_toggle win1 host1 s)))) = fst s"
  by (simp add: pin_toggle_def setAlwaysOnTop_component)

text \<open>
  Claim C9. Each setter changes its own variable and no other variable of the component:
  the component after \<^verbatim>\<open>setAlwaysOnTop\<close> is the one before with \<open>isPinned\<close> replaced, and
  likewise for the two others; in particular the other two window fields and the stored
  track metadata are as before, whatever the external calls answer.
\<close>

theorem setters_change_own_field_only:
  "fst (snd (setAlwaysOnTop flag win host (c, w))) = c\<lparr>isPinned := flag\<rparr> \<and>
   isMousePassthrough (fst (snd (setAlwaysOnTop flag win host (c, w)))) = isMousePassthrough c \<and>
   themeColor (fst (snd (setAlwaysOnTop flag win host (c, w)))) = themeColor c \<and>
   currentSong (fst (snd (setAlwaysOnTop flag win host (c, w)))) = currentSong c \<and>
   fst (snd (setMousePassthrough flag win host (c, w))) = c\<lparr>isMousePassthrough := flag\<rparr> \<and>
   isPinned (fst (snd (setMousePassthrough flag win host (c, w)))) = isPinned c \<and>
   themeColor (fst (snd (setMousePassthrough flag win host (c, w)))) = themeColor c \<and>
   currentSong (fst (snd (setMousePassthrough flag win host (c, w)))) = currentSong c \<and>
   fst (snd (changeThemeColor color host (c, w))) = c\<lparr>themeColor := color\<rparr> \<and>
   isPinned (fst (snd (changeThemeColor color host (c, w)))) = isPinned c \<and>
   isMousePassthrough (fst (snd (changeThemeColor color host (c, w)))) = isMousePassthrough c \<and>
   currentSong (fst (snd (changeThemeColor color host (c, w)))) = currentSong c"
  by (simp add: setAlwaysOnTop_component setMousePassthrough_component
        changeThemeColor_component)

subsection \<open>What a tick and the creation of the pipeline leave alone\<close>

lemma updateVisualization_values_state:
  "frequencyValues (fst (updateVisualization s)) =
     (case audioAnalysis (fst s) of
        None \<Rightarrow> frequencyValues (fst s)
      | Some a \<Rightarrow>
          (case getFrequencies a of
             Inl e \<Rightarrow> frequencyValues (fst s)
           | Inr values \<Rightarrow>
               if 64 \<le> length values then take 64 values
               else values @ replicate (64 - length values) 0))"
  by (cases s) (simp add: updateVisualization_values split: option.splits sum.splits)

lemma updateVisualization_ctx_bars_state:
  "bars (fst (updateVisualization_ctx s)) =
     (case analyser (fst s) of
        None \<Rightarrow> bars (fst s)
      | Some an \<Rightarrow>
          (case audioContext (fst s) of
             None \<Rightarrow> bars (fst s)
           | Some ctx \<Rightarrow>
               take 64 (map unat (getByteFrequencyData an (replicate (frequencyBinCount an) 0)))))"
  by (cases s) (simp add: updateVisualization_ctx_bars split: option.splits)

lemma updateVisualization_page_bars_state:
  "bars (fst (updateVisualization_page s)) =
     (case analyser (fst s) of
        None \<Rightarrow> bars (fst s)
      | Some an \<Rightarrow>
          take 64 (map unat (getByteFrequencyData an (replicate (frequencyBinCount an) 0))))"
  by (cases s) (simp add: updateVisualization_page_bars split: option.splits)

lemma updateVisualization_timers:
  "timeouts (snd (updateVisualization s)) = timeouts (snd s) \<and>
   attempts (snd (updateVisualization s)) = attempts (snd s)"
  by (cases s)
     (simp add: updateVisualization_def requestAnimationFrame_def external_def
           console_error_def Let_def split: option.splits sum.splits)

lemma updateVisualization_ctx_timers:
  "timeouts (snd (updateVisualization_ctx s)) = timeouts (snd s) \<and>
   attempts (snd (updateVisualization_ctx s)) = attempts (snd s)"
  by (cases s)
     (simp add: updateVisualization_ctx_def requestAnimationFrame_def external_def
           Let_def split: option.splits)

lemma initAudio_resolves: "fst (initAudio out s) = Inr ()"
  by (simp add: initAudio_def split: prod.splits sum.splits)

lemma initAudio_ctx_resolves: "fst (initAudio_ctx out s) = Inr ()"
  by (simp add: initAudio_ctx_def split: prod.splits sum.splits)

lemma play_rejected_timers:
  "timeouts (snd (play_rejected s)) = timeouts (snd s) \<and>
   attempts (snd (play_rejected s)) = attempts (snd s)"
  by (cases s) (simp add: play_rejected_def console_error_def)

lemma initAudio_body_timers:
  "timeouts (snd (snd (initAudio_body out (c, w)))) = timeouts w \<and>
   attempts (snd (snd (initAudio_body out (c, w)))) = attempts w"
  by (simp add: initAudio_body_def updateVisualization_timers play_rejected_timers
        cancelAnimationFrame_def external_def Let_def
        split: option.splits sum.splits)

lemma initAudio_timers:
  "timeouts (snd (snd (initAudio out (c, w)))) = timeouts w \<and>
   attempts (snd (snd (initAudio out (c, w)))) = attempts w"
proof (cases "initAudio_body out (c, w)")
  case (fields r c' w')
  with initAudio_body_timers [of out c w] show ?thesis
    by (cases r) (simp_all add: initAudio_def console_error_def)
qed

lemma initAudio_ctx_body_timers:
  "timeouts (snd (snd (initAudio_ctx_body out (c, w)))) = timeouts w \<and>
   attempts (snd (snd (initAudio_ctx_body out (c, w)))) = attempts w"
  by (simp add: initAudio_ctx_body_def updateVisualization_ctx_timers play_rejected_timers
        external_def Let_def
        split: option.splits sum.splits)

lemma initAudio_ctx_timers:
  "timeouts (snd (snd (initAudio_ctx out (c, w)))) = timeouts w \<and>
   attempts (snd (snd (initAudio_ctx out (c, w)))) = attempts w"
proof (cases "initAudio_ctx_body out (c, w)")
  case (fields r c' w')
  with initAudio_ctx_body_timers [of out c w] show ?thesis
    by (cases r) (simp_all add: initAudio_ctx_def console_error_def)
qed

lemma reconnectAudio_timers:
  "timeouts (snd (snd (reconnectAudio out (c, w)))) = timeouts w \<and>
   attempts (snd (snd (reconnectAudio out (c, w)))) = Suc (attempts w)"
proof -
  let ?w1 = "case audioElement c of
               Some el \<Rightarrow> external ElementPause (w\<lparr>attempts := Suc (attempts w)\<rparr>)
             | None \<Rightarrow> w\<lparr>attempts := Suc (attempts w)\<rparr>"
  have w1: "timeouts ?w1 = timeouts w \<and> attempts ?w1 = Suc (attempts w)"
    by (simp add: external_def split: option.splits)
  obtain r c2 w2 where i: "initAudio out (c, ?w1) = (r, c2, w2)"
    by (cases "initAudio out (c, ?w1)") auto
  from initAudio_resolves [of out "(c, ?w1)"] i have r: "r = Inr ()" by simp
  from initAudio_timers [of out c ?w1] i w1
  have "timeouts w2 = timeouts w \<and> attempts w2 = Suc (attempts w)" by simp
  with i r show ?thesis by (simp add: reconnectAudio_def Let_def)
qed

lemma reconnectAudio_ctx_timers:
  "timeouts (snd (snd (reconnectAudio_ctx out (c, w)))) = timeouts w \<and>
   attempts (snd (snd (reconnectAudio_ctx out (c, w)))) = Suc (attempts w)"
proof -
  let ?w1 = "case audioElement c of
               Some el \<Rightarrow> external ElementPause (w\<lparr>attempts := Suc (attempts w)\<rparr>)
             | None \<Rightarrow> w\<lparr>attempts := Suc (attempts w)\<rparr>"
  have w1: "timeouts ?w1 = timeouts w \<and> attempts ?w1 = Suc (attempts w)"
    by (simp add: external_def split: option.splits)
  obtain r c2 w2 where i: "initAudio_ctx out (c, ?w1) = (r, c2, w2)"
    by (cases "initAudio_ctx out (c, ?w1)") auto
  from initAudio_ctx_resolves [of out "(c, ?w1)"] i have r: "r = Inr ()" by simp
  from initAudio_ctx_timers [of out c ?w1] i w1
  have "timeouts w2 = timeouts w \<and> attempts w2 = Suc (attempts w)" by simp
  with i r show ?thesis by (simp add: reconnectAudio_ctx_def Let_def)
qed

subsection \<open>The liveness probe\<close>

text \<open>
  Claim C3. A firing of the probe that finds the element's \<open>readyState\<close> at 0 while
  \<open>isPlaying\<close> is true enters \<^verbatim>\<open>reconnectAudio\<close> exactly once; any other firing enters it
  not at all; and no firing leaves a timer behind that would enter it again. So one
  detection is one reconnect attempt, in both reconnecting revisions.
\<close>

theorem probe_one_reconnect_per_firing:
  "attempts (snd (audioCheckInterval out (c, w))) =
     (if (case audioElement c of None \<Rightarrow> False | Some el \<Rightarrow> readyState el = 0) \<and> isPlaying c
      then Suc (attempts w) else attempts w) \<and>
   timeouts (snd (audioCheckInterval out (c, w))) = timeouts w \<and>
   attempts (snd (audioCheckInterval_ctx out' (c, w))) =
     (if (case audioElement c of None \<Rightarrow> False | Some el \<Rightarrow> readyState el = 0) \<and> isPlaying c
      then Suc (attempts w) else attempts w) \<and>
   timeouts (snd (audioCheckInterval_ctx out' (c, w))) = timeouts w"
proof -
  have a: "timeouts (console_log ConnectionLost w') = timeouts w' \<and>
           attempts (console_log ConnectionLost w') = attempts w'" for w'
    by (simp add: console_log_def)
  have b: "timeouts (external ContextResume w) = timeouts w \<and>
           attempts (external ContextResume w) = attempts w"
    by (simp add: external_def)
  show ?thesis
    using reconnectAudio_timers [of out c "console_log ConnectionLost w"]
      reconnectAudio_ctx_timers [of out' c "console_log ConnectionLost w"]
      reconnectAudio_ctx_timers [of out' c "console_log ConnectionLost (external ContextResume w)"]
      a [of w] a [of "external ContextResume w"] b
    by (simp add: audioCheckInterval_def audioCheckInterval_ctx_def Let_def
          split: option.splits)
qed

theorem probe_one_reconnect_per_firing_witness:
  "(case audioElement (fst stalled) of None \<Rightarrow> False | Some el \<Rightarrow> readyState el = 0) \<and>
   isPlaying (fst stalled) \<and>
   attempts (snd stalled) = 0 \<and>
   attempts (snd (audioCheckInterval all_ok (fst stalled, snd stalled))) = 1 \<and>
   attempts (snd (audioCheckInterval all_ok (fst mounted, snd mounted))) = 0"
  using probe_one_reconnect_per_firing [of all_ok "fst stalled" "snd stalled" all_ok_ctx]
    probe_one_reconnect_per_firing [of all_ok "fst mounted" "snd mounted" all_ok_ctx]
  by (simp add: stalled_def mounted_def on_playing_def ready_state_changes_def initAudio_def
        initAudio_body_def updateVisualization_def getFrequencies_def new_audio_def
        requestAnimationFrame_def external_def all_ok_def initial_component_def
        initial_world_def Let_def)

subsection \<open>Retry after a failed reconnect\<close>

text \<open>
  The request for a retry sits in the \<^verbatim>\<open>catch\<close> of \<^verbatim>\<open>reconnectAudio\<close>, and that
  \<^verbatim>\<open>catch\<close> is never entered: \<^verbatim>\<open>initAudio\<close> catches every failure of its own and
  resolves. No call of \<^verbatim>\<open>reconnectAudio\<close>, failed or not, sets a timer.
\<close>

lemma reconnect_never_schedules_retry:
  "timeouts (snd (snd (reconnectAudio out s))) = timeouts (snd s) \<and>
   timeouts (snd (snd (reconnectAudio_ctx out' s))) = timeouts (snd s)"
  by (cases s) (simp add: reconnectAudio_timers reconnectAudio_ctx_timers)

text \<open>
  Claim C5, at inputs where the code departs from it. The component is mounted and
  playing and the stream is lost; the probe fires and reconnects. In the first run the
  construction of the analysis (in \<^verbatim>\<open>part_000\<close>: of the audio context) throws; in the
  second the pipeline is built and the promise of \<^verbatim>\<open>play()\<close> rejects. Either way the
  attempt has been made and has failed: the failure is logged and \<open>isPlaying\<close> is
  cleared. No retry is scheduled, after 5 seconds or at all, and the next firing of the
  probe starts no reconnect, since it reconnects only while \<open>isPlaying\<close> holds.
\<close>

theorem failed_reconnect_schedules_no_retry:
  "attempts (snd (audioCheckInterval ctor_throws stalled)) = 1 \<and>
   console (snd (audioCheckInterval ctor_throws stalled)) =
     [(Log, ConnectionLost), (Err, AudioInitFailed)] \<and>
   isPlaying (fst (audioCheckInterval ctor_throws stalled)) = False \<and>
   timeouts (snd (audioCheckInterval ctor_throws stalled)) = [] \<and>
   audioCheckInterval all_ok (audioCheckInterval ctor_throws stalled) =
     audioCheckInterval ctor_throws stalled \<and>
   attempts (snd (audioCheckInterval play_rejects stalled)) = 1 \<and>
   console (snd (audioCheckInterval play_rejects stalled)) =
     [(Log, ConnectionLost), (Err, PlayFailed)] \<and>
   isPlaying (fst (audioCheckInterval play_rejects stalled)) = False \<and>
   timeouts (snd (audioCheckInterval play_rejects stalled)) = [] \<and>
   attempts (snd (audioCheckInterval all_ok (audioCheckInterval play_rejects stalled))) = 1 \<and>
   attempts (snd (audioCheckInterval_ctx ctor_throws_ctx stalled_ctx)) = 1 \<and>
   console (snd (audioCheckInterval_ctx ctor_throws_ctx stalled_ctx)) =
     [(Log, ConnectionLost), (Err, AudioInitFailed)] \<and>
   isPlaying (fst (audioCheckInterval_ctx ctor_throws_ctx stalled_ctx)) = False \<and>
   timeouts (snd (audioCheckInterval_ctx ctor_throws_ctx stalled_ctx)) = [] \<and>
   audioCheckInterval_ctx all_ok_ctx (audioCheckInterval_ctx ctor_throws_ctx stalled_ctx) =
     audioCheckInterval_ctx ctor_throws_ctx stalled_ctx \<and>
   attempts (snd (audioCheckInterval_ctx play_rejects_ctx stalled_ctx)) = 1 \<and>
   isPlaying (fst (audioCheckInterval_ctx play_rejects_ctx stalled_ctx)) = False \<and>
   timeouts (snd (audioCheckInterval_ctx play_rejects_ctx stalled_ctx)) = [] \<and>
   attempts (snd (audioCheckInterval_ctx all_ok_ctx
     (audioCheckInterval_ctx play_rejects_ctx stalled_ctx))) = 1"
  by (simp add: stalled_def stalled_ctx_def mounted_def mounted_ctx_def on_playing_def
        ready_state_changes_def reconnectAudio_def play_rejected_def
        reconnectAudio_ctx_def initAudio_def initAudio_ctx_def initAudio_body_def
        initAudio_ctx_body_def updateVisualization_def updateVisualization_ctx_def
        audioCheckInterval_def audioCheckInterval_ctx_def getFrequencies_def
        frequencyBinCount_def getByteFrequencyData_def new_analyser_def new_audio_def
        requestAnimationFrame_def cancelAnimationFrame_def external_def console_error_def
        console_log_def all_ok_def all_ok_ctx_def ctor_throws_def ctor_throws_ctx_def
        play_rejects_def play_rejects_ctx_def
        initial_component_def initial_world_def Let_def)

subsection \<open>One tick loop\<close>

lemma updateVisualization_single_loop:
  "frames w = [] \<Longrightarrow> single_loop (updateVisualization (c, w))"
  by (simp add: updateVisualization_def single_loop_def requestAnimationFrame_def
        external_def console_error_def Let_def split: option.splits sum.splits)

lemma play_rejected_single_loop: "single_loop (play_rejected s) = single_loop s"
  by (cases s) (simp add: play_rejected_def single_loop_def console_error_def split: list.splits)

lemma cancel_single_loop:
  "single_loop (c, w) \<Longrightarrow>
   frames (case animationFrameId c of
             Some i \<Rightarrow> if i \<noteq> 0 then cancelAnimationFrame i w else w
           | None \<Rightarrow> w) = []"
  by (auto simp: single_loop_def cancelAnimationFrame_def
        split: option.splits list.splits if_splits)

lemma initAudio_body_single_loop:
  assumes "single_loop (c, w)"
  shows "single_loop (snd (initAudio_body out (c, w)))"
proof -
  define w2 where "w2 =
    (case audioElement c of
       Some el \<Rightarrow>
         external ElementPause
           (case animationFrameId c of
              Some i \<Rightarrow> if i \<noteq> 0 then cancelAnimationFrame i w else w
            | None \<Rightarrow> w)
     | None \<Rightarrow>
         (case animationFrameId c of
            Some i \<Rightarrow> if i \<noteq> 0 then cancelAnimationFrame i w else w
          | None \<Rightarrow> w))"
  have w2: "frames w2 = []"
    using cancel_single_loop [OF assms]
    by (simp add: w2_def external_def split: option.splits)
  have body: "initAudio_body out (c, w) =
      (case constructed out of
         Inl e \<Rightarrow> (Inl e, c\<lparr>audioElement := Some new_audio\<rparr>, w2)
       | Inr a \<Rightarrow>
           (case resumed out of
              Some e \<Rightarrow>
                (Inl e, c\<lparr>audioElement := Some new_audio, audioAnalysis := Some a\<rparr>,
                 external AnalysisResume w2)
            | None \<Rightarrow>
                (Inr (),
                 (case played out of
                    None \<Rightarrow>
                      updateVisualization
                        (c\<lparr>audioElement := Some new_audio, audioAnalysis := Some a\<rparr>,
                         external ElementPlay (external AnalysisResume w2))
                  | Some e \<Rightarrow>
                      play_rejected
                        (updateVisualization
                           (c\<lparr>audioElement := Some new_audio, audioAnalysis := Some a\<rparr>,
                            external ElementPlay (external AnalysisResume w2)))))))"
    by (simp add: initAudio_body_def w2_def Let_def split: sum.splits option.splits)
  have ext: "frames (external k w') = frames w'" for k w'
    by (simp add: external_def)
  have idle: "frames w' = [] \<Longrightarrow> single_loop (c', w')" for c' w'
    by (simp add: single_loop_def)
  show ?thesis
    unfolding body
    by (simp add: w2 ext idle updateVisualization_single_loop play_rejected_single_loop
          split: sum.splits option.splits)
qed

lemma initAudio_single_loop:
  assumes "single_loop (c, w)"
  shows "single_loop (snd (initAudio out (c, w)))"
proof (cases "initAudio_body out (c, w)")
  case (fields r c' w')
  with initAudio_body_single_loop [OF assms, of out] show ?thesis
    by (cases r) (simp_all add: initAudio_def single_loop_def console_error_def split: list.splits)
qed

text \<open>
  In \<^verbatim>\<open>part_001\<close> the reconnect path, the probe and the tick itself keep the tick loop
  single: \<^verbatim>\<open>initAudio\<close> cancels the pending request before anything else, so the request
  of the new pipeline's first tick is the only one pending.
\<close>

lemma single_loop_kept:
  assumes "single_loop (c, w)"
  shows "single_loop (snd (reconnectAudio out (c, w)))"
    and "single_loop (audioCheckInterval out (c, w))"
    and "single_loop (animation_frame i (c, w))"
proof -
  have step: "single_loop (c, w') \<Longrightarrow> single_loop (snd (reconnectAudio out (c, w')))" for w'
  proof -
    assume s: "single_loop (c, w')"
    let ?w1 = "case audioElement c of
                 Some el \<Rightarrow> external ElementPause (w'\<lparr>attempts := Suc (attempts w')\<rparr>)
               | None \<Rightarrow> w'\<lparr>attempts := Suc (attempts w')\<rparr>"
    from s have "single_loop (c, ?w1)"
      by (simp add: single_loop_def external_def split: option.splits)
    from initAudio_single_loop [OF this, of out] initAudio_resolves [of out "(c, ?w1)"]
    show ?thesis
      by (cases "initAudio out (c, ?w1)") (simp add: reconnectAudio_def Let_def)
  qed
  from assms show "single_loop (snd (reconnectAudio out (c, w)))" by (rule step)
  from assms have "single_loop (c, console_log ConnectionLost w)"
    by (simp add: single_loop_def console_log_def)
  from step [OF this] assms show "single_loop (audioCheckInterval out (c, w))"
    by (simp add: audioCheckInterval_def split: option.splits)
  show "single_loop (animation_frame i (c, w))"
  proof (cases "i \<in> set (frames w)")
    case True
    with assms have "frames (w\<lparr>frames := removeAll i (frames w)\<rparr>) = []"
      by (auto simp: single_loop_def split: list.splits)
    from updateVisualization_single_loop [OF this] True show ?thesis
      by (simp add: animation_frame_def)
  next
    case False
    with assms show ?thesis by (simp add: animation_frame_def)
  qed
qed

text \<open>
  In \<^verbatim>\<open>part_000\<close> \<^verbatim>\<open>initAudio\<close> cancels nothing: a reconnect whose steps all succeed
  leaves every pending request pending and adds the request of the new first tick.
\<close>

lemma reconnect_ctx_adds_a_loop:
  assumes "closed out = None" and "created out = Inr ctx" and "connected out = None"
    and "resumed_ctx out = None"
  shows "frames (snd (snd (reconnectAudio_ctx out (c, w)))) = frames w @ [Suc (frameCounter w)]"
  using assms
  by (simp add: reconnectAudio_ctx_def initAudio_ctx_def initAudio_ctx_body_def
        updateVisualization_ctx_def play_rejected_def requestAnimationFrame_def external_def
        console_error_def Let_def split: option.splits)

text \<open>
  Claim C2, at an input where the code of \<^verbatim>\<open>part_000\<close> departs from it. The component
  is mounted and playing, with the one request of its tick loop pending (number 1), and
  the stream is lost. The probe fires, finds \<open>readyState = 0\<close> and reconnects. The old
  request is still pending when the new pipeline requests its first tick (number 2): two
  loops are now active. Both callbacks run at the next frame, each publishes to \<open>bars\<close>
  and each requests its next tick (3 and 4), so the two loops go on side by side.
\<close>

theorem reconnect_ctx_leaves_two_loops:
  "frames (snd stalled_ctx) = [1] \<and>
   animationFrameId (fst stalled_ctx) = Some 1 \<and>
   frames (snd (audioCheckInterval_ctx all_ok_ctx stalled_ctx)) = [1, 2] \<and>
   single_loop (audioCheckInterval_ctx all_ok_ctx stalled_ctx) = False \<and>
   frames (snd (animation_frame_ctx 2 (animation_frame_ctx 1
     (audioCheckInterval_ctx all_ok_ctx stalled_ctx)))) = [3, 4]"
  by (simp add: stalled_ctx_def mounted_ctx_def on_playing_def ready_state_changes_def
        reconnectAudio_ctx_def initAudio_ctx_def
        initAudio_ctx_body_def updateVisualization_ctx_def audioCheckInterval_ctx_def
        animation_frame_ctx_def single_loop_def frequencyBinCount_def
        getByteFrequencyData_def new_analyser_def new_audio_def requestAnimationFrame_def
        external_def console_log_def all_ok_ctx_def initial_component_def initial_world_def
        Let_def)

subsection \<open>Repeating the tick\<close>

text \<open>
  What a tick publishes is a function of what its pull yields, not of what was published
  before, and the tick leaves the analysis object (in byte mode: the analyser and the
  context) as it found it. So a second tick whose pull yields what the first one's did
  publishes the same vector. Whether the pull does yield the same when no audio has
  arrived, and how long it takes to return, is the behaviour of the transform, which is
  not the component's code.
\<close>

lemma tick_republishes:
  "frequencyValues (fst (updateVisualization (updateVisualization s))) =
     frequencyValues (fst (updateVisualization s))"
  "bars (fst (updateVisualization_ctx (updateVisualization_ctx s))) =
     bars (fst (updateVisualization_ctx s))"
  "bars (fst (updateVisualization_page (updateVisualization_page s))) =
     bars (fst (updateVisualization_page s))"
proof -
  show "frequencyValues (fst (updateVisualization (updateVisualization s))) =
      frequencyValues (fst (updateVisualization s))"
    by (simp add: updateVisualization_values_state [of "updateVisualization s"]
          updateVisualization_analysis)
       (simp add: updateVisualization_values_state split: option.splits sum.splits)
  show "bars (fst (updateVisualization_ctx (updateVisualization_ctx s))) =
      bars (fst (updateVisualization_ctx s))"
    by (simp add: updateVisualization_ctx_bars_state [of "updateVisualization_ctx s"]
          updateVisualization_ctx_bars_state [of s] updateVisualization_ctx_keeps
          split: option.splits cong: option.case_cong)
  show "bars (fst (updateVisualization_page (updateVisualization_page s))) =
      bars (fst (updateVisualization_page s))"
    by (simp add: updateVisualization_page_bars_state [of "updateVisualization_page s"]
          updateVisualization_page_bars_state [of s] updateVisualization_page_keeps
          split: option.splits cong: option.case_cong)
qed

subsection \<open>What holds in every state of the running component\<close>

lemma pipeline_ok_untouched:
  assumes "pipeline_ok s"
    and "frequencyValues (fst s') = frequencyValues (fst s)"
    and "animationFrameId (fst s') = animationFrameId (fst s)"
    and "frames (snd s') = frames (snd s)"
  shows "pipeline_ok s'"
  using assms by (cases s; cases s') (simp add: pipeline_ok_def single_loop_def split: list.splits)

lemma play_rejected_values:
  "frequencyValues (fst (play_rejected s)) = frequencyValues (fst s)"
  by (cases s) (simp add: play_rejected_def)

lemma initAudio_body_vector:
  "length (frequencyValues c) = 64 \<Longrightarrow>
   length (frequencyValues (fst (snd (initAudio_body out (c, w))))) = 64"
  by (simp add: initAudio_body_def Let_def play_rejected_values
        updateVisualization_values_state split: option.splits sum.splits)

lemma initAudio_vector:
  assumes "length (frequencyValues c) = 64"
  shows "length (frequencyValues (fst (snd (initAudio out (c, w))))) = 64"
proof (cases "initAudio_body out (c, w)")
  case (fields r c' w')
  with initAudio_body_vector [OF assms, of out w] show ?thesis
    by (cases r) (simp_all add: initAudio_def)
qed

lemma reconnectAudio_vector:
  assumes "length (frequencyValues c) = 64"
  shows "length (frequencyValues (fst (snd (reconnectAudio out (c, w))))) = 64"
proof -
  let ?w1 = "case audioElement c of
               Some el \<Rightarrow> external ElementPause (w\<lparr>attempts := Suc (attempts w)\<rparr>)
             | None \<Rightarrow> w\<lparr>attempts := Suc (attempts w)\<rparr>"
  from initAudio_vector [OF assms, of out ?w1] initAudio_resolves [of out "(c, ?w1)"]
  show ?thesis
    by (cases "initAudio out (c, ?w1)") (simp add: reconnectAudio_def Let_def)
qed

lemma pipeline_ok_probe:
  assumes "pipeline_ok s"
  shows "pipeline_ok (audioCheckInterval out s)"
proof (cases s)
  case (Pair c w)
  with assms have v: "length (frequencyValues c) = 64" and l: "single_loop (c, w)"
    by (simp_all add: pipeline_ok_def)
  from reconnectAudio_vector [OF v, of out "console_log ConnectionLost w"] v
  have "length (frequencyValues (fst (audioCheckInterval out (c, w)))) = 64"
    by (simp add: audioCheckInterval_def split: option.splits)
  with single_loop_kept(2) [OF l, of out] Pair show ?thesis
    by (simp add: pipeline_ok_def)
qed

lemma pipeline_ok_frame:
  assumes "pipeline_ok s"
  shows "pipeline_ok (animation_frame i s)"
proof (cases s)
  case (Pair c w)
  with assms have v: "length (frequencyValues c) = 64" and l: "single_loop (c, w)"
    by (simp_all add: pipeline_ok_def)
  from v have "length (frequencyValues (fst (animation_frame i (c, w)))) = 64"
    by (simp add: animation_frame_def updateVisualization_values
          split: option.splits sum.splits)
  with single_loop_kept(3) [OF l, of i] Pair show ?thesis
    by (simp add: pipeline_ok_def)
qed

lemma pipeline_ok_mount:
  "pipeline_ok (snd (initAudio out (initial_component, initial_world)))"
proof -
  have "length (frequencyValues initial_component) = 64"
    by (simp add: initial_component_def)
  moreover have "single_loop (initial_component, initial_world)"
    by (simp add: single_loop_def initial_world_def)
  ultimately show ?thesis
    using initAudio_vector initAudio_single_loop by (simp add: pipeline_ok_def)
qed

text \<open>
  In every state the running component of \<^verbatim>\<open>part_001\<close> can be in, the published
  frequency vector has 64 elements and at most one tick loop is active.
\<close>

lemma reachable_pipeline_ok: "reachable s \<Longrightarrow> pipeline_ok s"
proof (induction rule: reachable.induct)
  case (mount out)
  show ?case by (rule pipeline_ok_mount)
next
  case (frame s i)
  then show ?case by (simp add: pipeline_ok_frame)
next
  case (probe s out)
  then show ?case by (simp add: pipeline_ok_probe)
next
  case (song s payload)
  from song.IH show ?case
    by (rule pipeline_ok_untouched) (cases s; simp add: song_info_update_def)+
next
  case (pin s flag win host)
  from pin.IH show ?case
    by (rule pipeline_ok_untouched)
       (cases s; simp add: setAlwaysOnTop_def await_call_def external_def wrote_def Let_def
          split: option.splits)+
next
  case (passthrough s flag win host)
  from passthrough.IH show ?case
    by (rule pipeline_ok_untouched)
       (cases s; simp add: setMousePassthrough_def await_call_def external_def wrote_def Let_def
          split: option.splits)+
next
  case (theme s color host)
  from theme.IH show ?case
    by (rule pipeline_ok_untouched)
       (cases s; simp add: changeThemeColor_def await_call_def external_def wrote_def Let_def
          split: option.splits)+
next
  case (playing s)
  from playing.IH show ?case
    by (rule pipeline_ok_untouched) (cases s; simp add: on_playing_def)+
next
  case (paused s)
  from paused.IH show ?case
    by (rule pipeline_ok_untouched) (cases s; simp add: on_pause_def)+
next
  case (failed s)
  from failed.IH show ?case
    by (rule pipeline_ok_untouched) (cases s; simp add: on_error_def console_error_def)+
next
  case (ready s n)
  from ready.IH show ?case
    by (rule pipeline_ok_untouched) (cases s; simp add: ready_state_changes_def)+
next
  case (audio s v)
  from audio.IH show ?case
    by (rule pipeline_ok_untouched) (cases s; simp add: audio_data_arrives_def)+
qed

subsection \<open>The byte-mode analyser stays configured\<close>

text \<open>
  The only analyser the byte-mode revisions ever hold is the one \<^verbatim>\<open>initAudio\<close> creates
  with \<open>fftSize = 256\<close>; neither the tick nor new audio data changes its size. This is the
  condition under which their tick publishes 64 elements.
\<close>

lemma analyser_configured_kept:
  assumes "analyser_configured c"
  shows "analyser_configured (fst (snd (initAudio_ctx out (c, w))))"
    and "analyser_configured (fst (initAudio_page out (c, w)))"
    and "analyser_configured (fst (updateVisualization_ctx (c, w)))"
    and "analyser_configured (fst (updateVisualization_page (c, w)))"
    and "analyser_configured (fst (byte_data_arrives v (c, w)))"
proof -
  have rejected: "analyser (fst (play_rejected s)) = analyser (fst s)" for s
    by (cases s) (simp add: play_rejected_def)
  from assms have body: "analyser_configured (fst (snd (initAudio_ctx_body out (c, w))))"
    by (simp add: initAudio_ctx_body_def Let_def updateVisualization_ctx_keeps rejected
          analyser_configured_def new_analyser_def split: option.splits sum.splits)
  show "analyser_configured (fst (snd (initAudio_ctx out (c, w))))"
  proof (cases "initAudio_ctx_body out (c, w)")
    case (fields r c' w')
    with body show ?thesis
      by (cases r) (simp_all add: initAudio_ctx_def analyser_configured_def)
  qed
  have page: "analyser (fst (initAudio_page out (c, w))) = analyser c \<or>
      analyser (fst (initAudio_page out (c, w))) = Some new_analyser"
  proof (cases "created out")
    case (Inl e)
    then show ?thesis by (simp add: initAudio_page_def)
  next
    case (Inr ctx)
    let ?s = "(c\<lparr>audioContext := Some ctx, analyser := Some new_analyser,
                 audioElement := Some new_audio_page\<rparr>, external ElementPlay w)"
    from updateVisualization_page_keeps [of ?s] Inr show ?thesis
      by (cases "updateVisualization_page ?s")
         (simp add: initAudio_page_def Let_def split: option.splits)
  qed
  with assms show "analyser_configured (fst (initAudio_page out (c, w)))"
    by (auto simp: analyser_configured_def new_analyser_def)
  from assms show "analyser_configured (fst (updateVisualization_ctx (c, w)))"
    by (simp add: analyser_configured_def updateVisualization_ctx_keeps)
  from assms show "analyser_configured (fst (updateVisualization_page (c, w)))"
    by (simp add: analyser_configured_def updateVisualization_page_keeps)
  from assms show "analyser_configured (fst (byte_data_arrives v (c, w)))"
    by (simp add: byte_data_arrives_def analyser_configured_def split: option.splits)
qed

lemma analyser_configured_initially: "analyser_configured initial_component"
  by (simp add: analyser_configured_def initial_component_def)

end
